theory Spec2Isabelle
  imports Complex_Main "HOL-Library.Sublist" "HOL-Library.Multiset" "HOL-Library.Log_Nat"
begin

section \<open>Python values and numbers\<close>

text \<open>
  A Python number is modelled by its exact value, a rational. The arithmetic is read in
  two ways. The section on \<open>calculate_risk_score\<close> in binary doubles rounds after every
  operation, as Python's floats do. The other sections compute with the exact values,
  without that rounding, and the decimal constants of the source are there the
  rationals they denote (\<open>0.4\<close> is \<open>2/5\<close>, \<open>1.3\<close> is \<open>13/10\<close>).

  Text is a list of code points below 256, one \<open>char\<close> each.
\<close>

text \<open>Python's \<open>round(x)\<close>: to the nearest integer, a tie going to the even one.\<close>

definition py_round0 :: "rat \<Rightarrow> int" where
  "py_round0 x =
     (let f = \<lfloor>x\<rfloor>; d = x - of_int f
      in if d < 1 / 2 then f else if 1 / 2 < d then f + 1
         else if even f then f else f + 1)"

text \<open>Python's \<open>round(x, n)\<close>: \<open>x\<close> rounded to \<open>n\<close> decimals.\<close>

definition py_round :: "rat \<Rightarrow> nat \<Rightarrow> rat" where
  "py_round x n = of_int (py_round0 (x * 10 ^ n)) / 10 ^ n"

text \<open>Python's \<open>int(x)\<close> on a number: truncation towards zero.\<close>

definition py_int :: "rat \<Rightarrow> int" where
  "py_int x = (if 0 \<le> x then \<lfloor>x\<rfloor> else \<lceil>x\<rceil>)"

text \<open>\<open>d.get(key, default)\<close> on a field that may be absent.\<close>

definition get_default :: "'a \<Rightarrow> 'a option \<Rightarrow> 'a" where
  "get_default d x = (case x of None \<Rightarrow> d | Some v \<Rightarrow> v)"

section \<open>Risk prediction service: \<open>calculate_risk_score\<close> over exact numbers\<close>

text \<open>
  The statements of \<open>calculate_risk_score\<close> with exact products and quotients. This
  reading serves the monotonicity of the score and the instance where the rounded score
  sits on a threshold; the section after it follows the doubles.

  The \<open>risk_data\<close> dictionary: each of its four keys may be absent, and
  \<open>risk_data.get\<close> then supplies the default.
\<close>

record risk_data =
  likelihood :: "rat option"
  impact :: "rat option"
  control_effectiveness :: "rat option"
  threat_level :: "string option"

text \<open>The dictionary returned by \<open>calculate_risk_score\<close>.\<close>

record risk_score_result =
  risk_score :: rat
  classification :: string
  priority :: nat
  likelihood_out :: rat
  impact_out :: rat
  confidence :: rat

text \<open>\<open>threat_multipliers.get(threat_level, 1.0)\<close>.\<close>

definition threat_multipliers :: "(string \<times> rat) list" where
  "threat_multipliers =
     [(''low'', 4 / 5), (''medium'', 1), (''high'', 13 / 10), (''critical'', 3 / 2)]"

definition threat_multiplier :: "string \<Rightarrow> rat" where
  "threat_multiplier t = get_default 1 (map_of threat_multipliers t)"

definition adjusted_likelihood :: "risk_data \<Rightarrow> rat" where
  "adjusted_likelihood rd =
     (let l = get_default 3 (likelihood rd);
          ce = get_default 70 (control_effectiveness rd) / 100
      in l * (1 - (ce * (2 / 5))))"

definition final_score :: "risk_data \<Rightarrow> rat" where
  "final_score rd =
     (let base_score = adjusted_likelihood rd * get_default 3 (impact rd)
      in base_score * threat_multiplier (get_default ''medium'' (threat_level rd)))"

text \<open>The \<open>if\<close>/\<open>elif\<close> chain on \<open>final_score\<close>: classification and priority.\<close>

definition classify :: "rat \<Rightarrow> string \<times> nat" where
  "classify s =
     (if 15 \<le> s then (''Critical'', 1)
      else if 10 \<le> s then (''High'', 2)
      else if 5 \<le> s then (''Medium'', 3)
      else (''Low'', 4))"

definition calculate_risk_score :: "risk_data \<Rightarrow> risk_score_result" where
  "calculate_risk_score rd =
     (let ce = get_default 70 (control_effectiveness rd) / 100;
          s = final_score rd;
          (c, p) = classify s
      in \<lparr> risk_score = py_round s 2,
           classification = c,
           priority = p,
           likelihood_out = py_round (adjusted_likelihood rd) 2,
           impact_out = get_default 3 (impact rd),
           confidence = py_round (ce * 100) 1 \<rparr>)"

text \<open>
  The scoring rule in the words of the specification, to compare with the code:
  the multiplier table with its fallback, the formula, and the four tiers.
\<close>

fun spec_multiplier :: "string \<Rightarrow> rat" where
  "spec_multiplier t =
     (if t = ''low'' then 4 / 5 else if t = ''medium'' then 1
      else if t = ''high'' then 13 / 10 else if t = ''critical'' then 3 / 2
      else 1)"

definition spec_score :: "rat \<Rightarrow> rat \<Rightarrow> rat \<Rightarrow> string \<Rightarrow> rat" where
  "spec_score l i ce t = l * (1 - ce / 100 * (2 / 5)) * i * spec_multiplier t"

definition spec_tier :: "rat \<Rightarrow> string \<times> nat" where
  "spec_tier s =
     (if s \<ge> 15 then (''Critical'', 1)
      else if s \<ge> 10 \<and> s < 15 then (''High'', 2)
      else if s \<ge> 5 \<and> s < 10 then (''Medium'', 3)
      else (''Low'', 4))"


section \<open>Risk prediction service: \<open>calculate_risk_score\<close> in binary doubles\<close>

text \<open>
  Python carries out \<open>calculate_risk_score\<close> in binary doubles: each product, quotient
  and difference is rounded to the nearest double, a tie going to the even mantissa.
  Every finite double is a rational number, so a double is modelled by its exact value,
  and \<open>fl x\<close> is the double nearest to \<open>x\<close>: 53 significant bits, and no step finer
  than \<open>2^-1074\<close>. Infinities are left out; with likelihood and impact in 1-5 and
  controlEffectiveness in 0-100 every intermediate value stays below 40.
\<close>

definition pow2 :: "int \<Rightarrow> rat" where
  "pow2 k = (if 0 \<le> k then 2 ^ nat k else 1 / 2 ^ nat (- k))"

text \<open>The binary exponent of a positive rational: \<open>2^e \<le> x < 2^(e+1)\<close>.\<close>

definition ilog2 :: "rat \<Rightarrow> int" where
  "ilog2 x =
     (let (p, q) = quotient_of x;
          d = bitlen p - bitlen q
      in if pow2 d \<le> x then d else d - 1)"

definition fl :: "rat \<Rightarrow> rat" where
  "fl x =
     (if x = 0 then 0
      else (let q = pow2 (max (ilog2 \<bar>x\<bar> - 52) (- 1074))
            in of_int (py_round0 (x / q)) * q))"

text \<open>The arithmetic of doubles: the exact result, rounded.\<close>

definition fmul :: "rat \<Rightarrow> rat \<Rightarrow> rat" where
  "fmul a b = fl (a * b)"

definition fsub :: "rat \<Rightarrow> rat \<Rightarrow> rat" where
  "fsub a b = fl (a - b)"

definition fdiv :: "rat \<Rightarrow> rat \<Rightarrow> rat" where
  "fdiv a b = fl (a / b)"

text \<open>
  \<open>round(x, n)\<close> on a double: the exact value of \<open>x\<close> rounded to \<open>n\<close> decimals, a
  tie going to the even digit, and the double nearest to that decimal.
\<close>

definition py_round_double :: "rat \<Rightarrow> nat \<Rightarrow> rat" where
  "py_round_double x n = fl (of_int (py_round0 (x * 10 ^ n)) / 10 ^ n)"

text \<open>
  The literals \<open>0.8\<close>, \<open>1.0\<close>, \<open>1.3\<close>, \<open>1.5\<close> and \<open>0.4\<close> are the doubles nearest to
  these decimals.
\<close>

definition threat_multipliers_double :: "(string \<times> rat) list" where
  "threat_multipliers_double =
     [(''low'', fl (8 / 10)), (''medium'', fl 1), (''high'', fl (13 / 10)),
      (''critical'', fl (15 / 10))]"

definition threat_multiplier_double :: "string \<Rightarrow> rat" where
  "threat_multiplier_double t = get_default (fl 1) (map_of threat_multipliers_double t)"

text \<open>
  Lines 40 to 79 of the source, statement by statement. A field of \<open>risk_data\<close> holds
  the exact value of the number passed in.
\<close>

definition adjusted_likelihood_double :: "risk_data \<Rightarrow> rat" where
  "adjusted_likelihood_double rd =
     (let l = get_default 3 (likelihood rd);
          ce = fdiv (get_default 70 (control_effectiveness rd)) 100
      in fmul l (fsub 1 (fmul ce (fl (4 / 10)))))"

definition final_score_double :: "risk_data \<Rightarrow> rat" where
  "final_score_double rd =
     (let base_score = fmul (adjusted_likelihood_double rd) (get_default 3 (impact rd))
      in fmul base_score
           (threat_multiplier_double (get_default ''medium'' (threat_level rd))))"

definition calculate_risk_score_double :: "risk_data \<Rightarrow> risk_score_result" where
  "calculate_risk_score_double rd =
     (let ce = fdiv (get_default 70 (control_effectiveness rd)) 100;
          s = final_score_double rd;
          (c, p) = classify s
      in \<lparr> risk_score = py_round_double s 2,
           classification = c,
           priority = p,
           likelihood_out = py_round_double (adjusted_likelihood_double rd) 2,
           impact_out = get_default 3 (impact rd),
           confidence = py_round_double (fmul ce 100) 1 \<rparr>)"

text \<open>
  The formula of the specification read as a Python expression over doubles: the
  operators associate to the left and every operation rounds.
\<close>

definition spec_multiplier_double :: "string \<Rightarrow> rat" where
  "spec_multiplier_double t =
     (if t = ''low'' then fl (8 / 10) else if t = ''medium'' then fl 1
      else if t = ''high'' then fl (13 / 10) else if t = ''critical'' then fl (15 / 10)
      else fl 1)"

definition spec_score_double :: "rat \<Rightarrow> rat \<Rightarrow> rat \<Rightarrow> string \<Rightarrow> rat" where
  "spec_score_double l i ce t =
     fmul (fmul (fmul l (fsub 1 (fmul (fdiv ce 100) (fl (4 / 10))))) i)
       (spec_multiplier_double t)"

section \<open>Dictionaries received from the caller\<close>

text \<open>
  The entries of \<open>current_controls\<close>, \<open>current_risks\<close> and \<open>gaps\<close> are dictionaries
  with string keys and values of any shape. A dictionary is an association list, read
  with \<open>map_of\<close>.
\<close>

datatype pyval =
  VNone
  | VBool bool
  | VInt int
  | VStr string
  | VList "pyval list"
  | VDict "(string \<times> pyval) list"

type_synonym pydict = "(string \<times> pyval) list"

text \<open>The exceptions the services can raise.\<close>

datatype error =
  ValueError string
  | KeyError string
  | TypeError
  | AttributeError

text \<open>\<open>d[key]\<close>: a missing key raises \<open>KeyError\<close>.\<close>

definition subscript :: "pydict \<Rightarrow> string \<Rightarrow> error + pyval" where
  "subscript d k = (case map_of d k of None \<Rightarrow> Inl (KeyError k) | Some v \<Rightarrow> Inr v)"

text \<open>Lists and dictionaries cannot be members of a set.\<close>

fun hashable :: "pyval \<Rightarrow> bool" where
  "hashable (VList _) = False"
| "hashable (VDict _) = False"
| "hashable _ = True"

text \<open>\<open>str.isspace\<close> on one code point, which is also what \<open>\s\<close> matches.\<close>

definition is_space :: "char \<Rightarrow> bool" where
  "is_space c =
     (let n = (of_char c :: nat)
      in (9 \<le> n \<and> n \<le> 13) \<or> (28 \<le> n \<and> n \<le> 32) \<or> n = 133 \<or> n = 160)"

text \<open>\<open>str.lower\<close>: the capital letters below 256 move up by 32.\<close>

definition py_lower :: "char \<Rightarrow> char" where
  "py_lower c =
     (let n = (of_char c :: nat)
      in if (65 \<le> n \<and> n \<le> 90) \<or> (192 \<le> n \<and> n \<le> 222 \<and> n \<noteq> 215)
         then char_of (n + 32) else c)"

definition lower :: "string \<Rightarrow> string" where
  "lower s = map py_lower s"

text \<open>\<open>str.strip\<close>: white space removed at both ends.\<close>

definition strip :: "string \<Rightarrow> string" where
  "strip s = rev (dropWhile is_space (rev (dropWhile is_space s)))"

text \<open>\<open>needle in haystack\<close> on strings.\<close>

fun contains :: "string \<Rightarrow> string \<Rightarrow> bool" where
  "contains [] needle = (needle = [])"
| "contains (c # cs) needle = (prefix needle (c # cs) \<or> contains cs needle)"

text \<open>\<open>str(n)\<close> for a count.\<close>

definition digit_char :: "nat \<Rightarrow> char" where
  "digit_char d = char_of (48 + d)"

fun str_nat :: "nat \<Rightarrow> string" where
  "str_nat n = (if n < 10 then [digit_char n] else str_nat (n div 10) @ [digit_char (n mod 10)])"

section \<open>Risk prediction service: \<open>predict_emerging_risks\<close>\<close>

text \<open>An entry of \<open>emerging_risks_db\<close>, and the entry with its prediction metadata.\<close>

record base_risk =
  name :: string
  category :: string
  probability :: rat
  description :: string

record emerging_risk = base_risk +
  predicted_on :: string
  time_horizon :: string
  predicted_likelihood :: int
  predicted_impact :: int

definition emerging_risks_db :: "(string \<times> base_risk list) list" where
  "emerging_risks_db =
     [(''technology'',
        [\<lparr>name = ''AI/ML Security Vulnerabilities'', category = ''Cybersecurity'',
          probability = 75 / 100,
          description = ''Risks from AI model poisoning and adversarial attacks''\<rparr>,
         \<lparr>name = ''Supply Chain Software Risks'', category = ''Third Party'',
          probability = 68 / 100,
          description = ''Vulnerabilities in dependencies and open-source components''\<rparr>]),
      (''finance'',
        [\<lparr>name = ''Regulatory Compliance Changes'', category = ''Compliance'',
          probability = 80 / 100,
          description = ''New financial regulations and reporting requirements''\<rparr>,
         \<lparr>name = ''Digital Payment Fraud'', category = ''Operational'',
          probability = 72 / 100,
          description = ''Sophisticated fraud schemes targeting digital transactions''\<rparr>]),
      (''healthcare'',
        [\<lparr>name = ''Ransomware Targeting Healthcare'', category = ''Cybersecurity'',
          probability = 85 / 100,
          description = ''Increased ransomware attacks on healthcare systems''\<rparr>,
         \<lparr>name = ''Medical Device Security'', category = ''Cybersecurity'',
          probability = 70 / 100,
          description = ''Vulnerabilities in connected medical devices''\<rparr>])]"

text \<open>
  \<open>risk['name'].lower()\<close> for one entry of \<open>current_risks\<close>: the key must be there
  and its value must be a string.
\<close>

definition risk_name_lower :: "pydict \<Rightarrow> error + string" where
  "risk_name_lower risk =
     (case subscript risk ''name'' of
        Inl e \<Rightarrow> Inl e
      | Inr (VStr s) \<Rightarrow> Inr (lower s)
      | Inr _ \<Rightarrow> Inl AttributeError)"

text \<open>The set comprehension, entry by entry; the first failure ends it.\<close>

fun current_risk_names :: "pydict list \<Rightarrow> error + string list" where
  "current_risk_names [] = Inr []"
| "current_risk_names (risk # risks) =
     (case risk_name_lower risk of
        Inl e \<Rightarrow> Inl e
      | Inr n \<Rightarrow>
          (case current_risk_names risks of
             Inl e \<Rightarrow> Inl e
           | Inr ns \<Rightarrow> Inr (n # ns)))"

text \<open>
  The loop that adds the metadata. \<open>clock k\<close> is what \<open>datetime.now().isoformat()\<close>
  returns at its \<open>k\<close>-th call, one call for each risk.
\<close>

definition add_metadata :: "string \<Rightarrow> base_risk \<Rightarrow> emerging_risk" where
  "add_metadata stamp risk =
     base_risk.extend risk
       (emerging_risk.fields stamp ''6-12 months'' (py_int (probability risk * 5)) 4)"

fun add_metadata_all :: "(nat \<Rightarrow> string) \<Rightarrow> nat \<Rightarrow> base_risk list \<Rightarrow> emerging_risk list" where
  "add_metadata_all clock k [] = []"
| "add_metadata_all clock k (risk # risks) =
     add_metadata (clock k) risk # add_metadata_all clock (Suc k) risks"

definition predict_emerging_risks ::
  "(nat \<Rightarrow> string) \<Rightarrow> string \<Rightarrow> pydict list \<Rightarrow> error + emerging_risk list" where
  "predict_emerging_risks clock industry current_risks =
     (let base_risks = get_default [] (map_of emerging_risks_db (lower industry))
      in case current_risk_names current_risks of
           Inl e \<Rightarrow> Inl e
         | Inr names \<Rightarrow>
             Inr (add_metadata_all clock 0
                   (filter (\<lambda>risk. lower (name risk) \<notin> set names) base_risks)))"

text \<open>A clock for the examples: every reading gives the same instant.\<close>

definition sample_clock :: "nat \<Rightarrow> string" where
  "sample_clock k = ''2024-01-01T00:00:00''"

section \<open>Gap analysis service\<close>

text \<open>
  A required control of a framework catalogue: a dictionary with the keys \<open>id\<close>,
  \<open>name\<close>, \<open>category\<close>, \<open>description\<close> and \<open>priority\<close>. The last one is
  \<open>None\<close> for an entry that has no \<open>priority\<close> key.
\<close>

record requirement =
  req_id :: string
  req_name :: string
  req_category :: string
  req_description :: string
  req_priority :: "string option"

definition load_iso27001_controls :: "requirement list" where
  "load_iso27001_controls =
     [\<lparr>req_id = ''A.5.1'', req_name = ''Information Security Policies'',
       req_category = ''Organizational Controls'',
       req_description = ''Policies for information security'',
       req_priority = Some ''Critical''\<rparr>,
      \<lparr>req_id = ''A.5.2'', req_name = ''Roles and Responsibilities'',
       req_category = ''Organizational Controls'',
       req_description = ''Define and communicate security roles'',
       req_priority = Some ''High''\<rparr>,
      \<lparr>req_id = ''A.8.1'', req_name = ''User Endpoint Devices'',
       req_category = ''Technological Controls'',
       req_description = ''Protect information on endpoint devices'',
       req_priority = Some ''High''\<rparr>]"

definition load_soc2_controls :: "requirement list" where
  "load_soc2_controls =
     [\<lparr>req_id = ''CC1.1'', req_name = ''Control Environment'',
       req_category = ''Common Criteria'',
       req_description = ''Demonstrates commitment to integrity and ethical values'',
       req_priority = Some ''Critical''\<rparr>,
      \<lparr>req_id = ''CC6.1'', req_name = ''Logical and Physical Access Controls'',
       req_category = ''Common Criteria'',
       req_description = ''Restrict access to authorized users'',
       req_priority = Some ''Critical''\<rparr>]"

text \<open>
  Line 79 of the source, the last line of the second entry below, reads
  \<open>priority': 'High'\<close>: the opening quote of the key is missing, so the line is not a
  well-formed entry of the dictionary and the module does not compile as it stands.
  What the line gives the entry is therefore not decided here. \<open>line79\<close> is the value
  the entry holds under \<open>priority\<close>: \<open>None\<close> if the line gives it no such key,
  \<open>Some ''High''\<close> if the line is read with its quote restored. Every statement
  below about \<open>analyze_gaps\<close> holds for each value of \<open>line79\<close>.
\<close>

definition load_gdpr_requirements :: "string option \<Rightarrow> requirement list" where
  "load_gdpr_requirements line79 =
     [\<lparr>req_id = ''Art.32'', req_name = ''Security of Processing'',
       req_category = ''Security'',
       req_description = ''Implement appropriate technical and organizational measures'',
       req_priority = Some ''Critical''\<rparr>,
      \<lparr>req_id = ''Art.33'', req_name = ''Breach Notification'',
       req_category = ''Incident Management'',
       req_description = ''Notify supervisory authority of data breaches'',
       req_priority = line79\<rparr>]"

definition frameworks :: "string option \<Rightarrow> (string \<times> requirement list) list" where
  "frameworks line79 =
     [(''iso27001'', load_iso27001_controls),
      (''soc2'', load_soc2_controls),
      (''gdpr'', load_gdpr_requirements line79)]"

text \<open>A gap, as \<open>analyze_gaps\<close> builds it from a required control.\<close>

record gap =
  control_id :: string
  control_name :: string
  gap_category :: string
  gap_description :: string
  gap_priority :: string
  status :: string

text \<open>The dictionary returned by \<open>analyze_gaps\<close>.\<close>

record gap_analysis =
  framework :: string
  analysis_date :: string
  completion_rate :: rat
  total_required :: nat
  total_implemented :: nat
  total_gaps :: nat
  critical_gaps :: nat
  high_priority_gaps :: nat
  gaps :: "gap list"
  recommendations :: "string list"

text \<open>
  \<open>ctrl['id']\<close> for one entry of \<open>current_controls\<close>, on its way into the set
  \<open>implemented_ids\<close>: the key must be there and its value must be hashable.
\<close>

definition control_id_of :: "pydict \<Rightarrow> error + pyval" where
  "control_id_of ctrl =
     (case subscript ctrl ''id'' of
        Inl e \<Rightarrow> Inl e
      | Inr v \<Rightarrow> if hashable v then Inr v else Inl TypeError)"

fun implemented_ids :: "pydict list \<Rightarrow> error + pyval list" where
  "implemented_ids [] = Inr []"
| "implemented_ids (ctrl # ctrls) =
     (case control_id_of ctrl of
        Inl e \<Rightarrow> Inl e
      | Inr v \<Rightarrow>
          (case implemented_ids ctrls of
             Inl e \<Rightarrow> Inl e
           | Inr vs \<Rightarrow> Inr (v # vs)))"

text \<open>
  The dictionary built at lines 103 to 110 for a required control that is not
  implemented. \<open>req_ctrl['priority']\<close> raises \<open>KeyError\<close> when the entry has no such
  key; the other four keys are in every entry.
\<close>

definition missing_gap :: "requirement \<Rightarrow> error + gap" where
  "missing_gap req_ctrl =
     (case req_priority req_ctrl of
        None \<Rightarrow> Inl (KeyError ''priority'')
      | Some p \<Rightarrow>
          Inr \<lparr>control_id = req_id req_ctrl,
               control_name = req_name req_ctrl,
               gap_category = req_category req_ctrl,
               gap_description = req_description req_ctrl,
               gap_priority = p,
               status = ''Missing''\<rparr>)"

text \<open>The loop over the required controls, in catalogue order; the first failure ends it.\<close>

fun collect_gaps :: "pyval list \<Rightarrow> requirement list \<Rightarrow> error + gap list" where
  "collect_gaps ids [] = Inr []"
| "collect_gaps ids (req_ctrl # rest) =
     (if VStr (req_id req_ctrl) \<notin> set ids then
        (case missing_gap req_ctrl of
           Inl e \<Rightarrow> Inl e
         | Inr g \<Rightarrow>
             (case collect_gaps ids rest of
                Inl e \<Rightarrow> Inl e
              | Inr gs \<Rightarrow> Inr (g # gs)))
      else collect_gaps ids rest)"

text \<open>
  \<open>categories[cat] = categories.get(cat, 0) + 1\<close>: the count of a category already
  seen grows where it stands, a new category goes to the end.
\<close>

fun bump :: "string \<Rightarrow> (string \<times> nat) list \<Rightarrow> (string \<times> nat) list" where
  "bump cat [] = [(cat, 1)]"
| "bump cat ((c, n) # rest) =
     (if c = cat then (c, n + 1) # rest else (c, n) # bump cat rest)"

fun count_categories :: "gap list \<Rightarrow> (string \<times> nat) list \<Rightarrow> (string \<times> nat) list" where
  "count_categories [] categories = categories"
| "count_categories (g # gs) categories = count_categories gs (bump (gap_category g) categories)"

definition generate_recommendations :: "gap list \<Rightarrow> string list" where
  "generate_recommendations gs =
     (if gs \<noteq> [] then
        (let critical = filter (\<lambda>g. gap_priority g = ''Critical'') gs;
             urgent =
               (if critical \<noteq> [] then
                  [''URGENT: Address '' @ str_nat (length critical) @
                   '' critical gaps immediately to meet compliance requirements.'']
                else []);
             categories = count_categories gs []
         in urgent @
            map (\<lambda>(category, count).
                   ''Focus on '' @ category @ '': '' @ str_nat count @
                   '' gap(s) identified in this area.'')
              (sort_key (\<lambda>x. - int (snd x)) categories))
      else [''Great! No gaps identified. Continue monitoring and maintaining controls.''])"

text \<open>\<open>now\<close> is what \<open>datetime.now().isoformat()\<close> returns.\<close>

definition analyze_gaps ::
  "string option \<Rightarrow> string \<Rightarrow> string \<Rightarrow> pydict list \<Rightarrow> error + gap_analysis" where
  "analyze_gaps line79 now fw current_controls =
     (case map_of (frameworks line79) fw of
        None \<Rightarrow> Inl (ValueError (''Unknown framework: '' @ fw))
      | Some required_controls \<Rightarrow>
          (case implemented_ids current_controls of
             Inl e \<Rightarrow> Inl e
           | Inr ids \<Rightarrow>
               (case collect_gaps ids required_controls of
                  Inl e \<Rightarrow> Inl e
                | Inr gs \<Rightarrow>
                    (let n_required = length required_controls;
                         implemented = n_required - length gs;
                         rate = (if n_required > 0
                                 then (of_nat implemented / of_nat n_required) * 100 else 0)
                     in Inr \<lparr>framework = fw,
                             analysis_date = now,
                             completion_rate = py_round rate 2,
                             total_required = n_required,
                             total_implemented = implemented,
                             total_gaps = length gs,
                             critical_gaps =
                               length (filter (\<lambda>g. gap_priority g = ''Critical'') gs),
                             high_priority_gaps =
                               length (filter (\<lambda>g. gap_priority g = ''High'') gs),
                             gaps = gs,
                             recommendations = generate_recommendations gs\<rparr>))))"

section \<open>Document analyzer service\<close>

subsection \<open>Requirement extraction\<close>

text \<open>
  The four patterns of \<open>_extract_requirements\<close> are \<open>kw\s+([^.]+)\<close> for the keywords
  below, matched with \<open>re.IGNORECASE\<close>.
\<close>

definition requirement_patterns :: "string list" where
  "requirement_patterns = [''must'', ''shall'', ''required to'', ''mandatory'']"

text \<open>
  One attempt to match \<open>kw\s+([^.]+)\<close> at the start of \<open>s\<close>: the captured group and
  the length of the whole match. The keyword is compared without regard to case; \<open>\s+\<close>
  takes the whole run of white space; the group then runs to the next full stop or to
  the end of the text. When nothing but a full stop or the end follows the white space,
  \<open>\s+\<close> gives back its last character, which the group then captures.
\<close>

definition match_at :: "string \<Rightarrow> string \<Rightarrow> (string \<times> nat) option" where
  "match_at kw s =
     (if length kw \<le> length s \<and> lower (take (length kw) s) = lower kw then
        (let rest = drop (length kw) s;
             ws = takeWhile is_space rest;
             body = takeWhile (\<lambda>c. c \<noteq> CHR ''.'') (dropWhile is_space rest)
         in if ws = [] then None
            else if body \<noteq> [] then Some (body, length kw + length ws + length body)
            else if 2 \<le> length ws then Some ([last ws], length kw + length ws)
            else None)
      else None)"

text \<open>
  \<open>re.finditer\<close>: the matches from left to right, each with its start offset
  (\<open>match.start()\<close>) and its group; the search resumes where the last match ended.
\<close>

function finditer :: "string \<Rightarrow> nat \<Rightarrow> string \<Rightarrow> (nat \<times> string) list" where
  "finditer kw pos s =
     (if s = [] then []
      else (case match_at kw s of
              Some (g, n) \<Rightarrow> (pos, g) # finditer kw (pos + n) (drop n s)
            | None \<Rightarrow> finditer kw (Suc pos) (tl s)))"
  by pat_completeness auto
termination
  by (relation "measure (\<lambda>(kw, pos, s). length s)")
    (auto simp: match_at_def Let_def split: if_splits)

declare finditer.simps [simp del]

record extracted_requirement =
  req_text :: string
  req_type :: string
  position :: nat

text \<open>The inner loop for one pattern: a match is kept when \<open>len(req_text) > 10\<close>.\<close>

definition keep_match :: "nat \<times> string \<Rightarrow> bool" where
  "keep_match m = (length (strip (snd m)) > 10)"

definition requirement_of :: "nat \<times> string \<Rightarrow> extracted_requirement" where
  "requirement_of m =
     \<lparr>req_text = strip (snd m), req_type = ''mandatory'', position = fst m\<rparr>"

definition pattern_requirements :: "string \<Rightarrow> string \<Rightarrow> extracted_requirement list" where
  "pattern_requirements text kw = map requirement_of (filter keep_match (finditer kw 0 text))"

text \<open>The outer loop: the patterns in their declared order.\<close>

definition matched_requirements :: "string \<Rightarrow> extracted_requirement list" where
  "matched_requirements text = concat (map (pattern_requirements text) requirement_patterns)"

text \<open>The loop that removes duplicates, with the texts \<open>seen\<close> so far.\<close>

fun unique_reqs :: "string list \<Rightarrow> extracted_requirement list \<Rightarrow> extracted_requirement list" where
  "unique_reqs seen [] = []"
| "unique_reqs seen (req # reqs) =
     (if req_text req \<notin> set seen then req # unique_reqs (req_text req # seen) reqs
      else unique_reqs seen reqs)"

definition extract_requirements :: "string \<Rightarrow> extracted_requirement list" where
  "extract_requirements text = take 10 (unique_reqs [] (matched_requirements text))"

subsection \<open>Splitting\<close>

text \<open>\<open>s.split()\<close>: the maximal runs without white space.\<close>

fun split_ws :: "string \<Rightarrow> string \<Rightarrow> string list" where
  "split_ws cur [] = (if cur = [] then [] else [cur])"
| "split_ws cur (c # cs) =
     (if is_space c then (if cur = [] then split_ws [] cs else cur # split_ws [] cs)
      else split_ws (cur @ [c]) cs)"

text \<open>\<open>s.split(sep)\<close> for a separator of one character.\<close>

fun split_on :: "char \<Rightarrow> string \<Rightarrow> string \<Rightarrow> string list" where
  "split_on sep cur [] = [cur]"
| "split_on sep cur (c # cs) =
     (if c = sep then cur # split_on sep [] cs else split_on sep (cur @ [c]) cs)"

subsection \<open>Section headings\<close>

definition is_digit :: "char \<Rightarrow> bool" where
  "is_digit c = (let n = (of_char c :: nat) in 48 \<le> n \<and> n \<le> 57)"

definition is_upper :: "char \<Rightarrow> bool" where
  "is_upper c = (let n = (of_char c :: nat) in 65 \<le> n \<and> n \<le> 90)"

definition newline :: char where
  "newline = CHR 0x0A"

text \<open>\<open>^\d+\.\s+([A-Z][^\n]+)\<close> against a line: the group, if the line matches.\<close>

definition match_numbered :: "string \<Rightarrow> string option" where
  "match_numbered line =
     (if takeWhile is_digit line = [] then None
      else (case dropWhile is_digit line of
              [] \<Rightarrow> None
            | dot # r2 \<Rightarrow>
                if dot \<noteq> CHR ''.'' \<or> takeWhile is_space r2 = [] then None
                else (case dropWhile is_space r2 of
                        [] \<Rightarrow> None
                      | u # r4 \<Rightarrow>
                          if is_upper u \<and> takeWhile (\<lambda>c. c \<noteq> newline) r4 \<noteq> []
                          then Some (u # takeWhile (\<lambda>c. c \<noteq> newline) r4)
                          else None)))"

text \<open>\<open>^([A-Z][A-Z\s]+)$\<close> against a line.\<close>

definition match_caps :: "string \<Rightarrow> string option" where
  "match_caps line =
     (case line of
        [] \<Rightarrow> None
      | u # rest \<Rightarrow>
          if is_upper u \<and> rest \<noteq> [] \<and> list_all (\<lambda>c. is_upper c \<or> is_space c) rest
          then Some line else None)"

text \<open>
  \<open>^#+\s+(.+)$\<close> against a line that holds no line feed, as every line of
  \<open>text.split('\n')\<close> does.
\<close>

definition match_markdown :: "string \<Rightarrow> string option" where
  "match_markdown line =
     (let r1 = dropWhile (\<lambda>c. c = CHR ''#'') line;
          ws = takeWhile is_space r1;
          r2 = dropWhile is_space r1
      in if takeWhile (\<lambda>c. c = CHR ''#'') line = [] \<or> ws = [] then None
         else if r2 \<noteq> [] then Some r2
         else if 2 \<le> length ws then Some [last ws]
         else None)"

text \<open>The patterns in their declared order; the first that matches wins.\<close>

definition first_heading :: "string \<Rightarrow> string option" where
  "first_heading line =
     (case match_numbered line of
        Some g \<Rightarrow> Some g
      | None \<Rightarrow>
          (case match_caps line of
             Some g \<Rightarrow> Some g
           | None \<Rightarrow> match_markdown line))"

definition extract_sections :: "string \<Rightarrow> string list" where
  "extract_sections text =
     concat (map (\<lambda>line. case first_heading (strip line) of
                            None \<Rightarrow> []
                          | Some g \<Rightarrow> [strip g])
               (split_on newline [] text))"

subsection \<open>Frameworks mentioned\<close>

definition framework_identifiers :: "(string \<times> string list) list" where
  "framework_identifiers =
     [(''iso27001'', [''iso 27001'', ''iso27001'', ''iso/iec 27001'']),
      (''soc2'', [''soc 2'', ''soc2'', ''soc ii'']),
      (''gdpr'', [''gdpr'', ''general data protection regulation'']),
      (''hipaa'', [''hipaa'', ''health insurance portability'']),
      (''pci_dss'', [''pci dss'', ''pci-dss'', ''payment card industry''])]"

definition identify_frameworks :: "string \<Rightarrow> string list" where
  "identify_frameworks text =
     map fst (filter (\<lambda>(fw, identifiers). list_ex (contains (lower text)) identifiers)
                framework_identifiers)"

subsection \<open>Completeness and quality\<close>

definition required_elements :: "(string \<times> string list) list" where
  "required_elements =
     [(''policy'',
        [''purpose'', ''scope'', ''responsibilities'', ''policy statement'',
         ''compliance'', ''review'', ''effective date'']),
      (''procedure'',
        [''purpose'', ''scope'', ''procedure steps'', ''responsibilities'',
         ''references'', ''records'']),
      (''contract'',
        [''parties'', ''term'', ''obligations'', ''confidentiality'',
         ''liability'', ''termination''])]"

record completeness =
  score :: rat
  found :: nat
  total_required_elements :: nat
  missing :: "string list"

definition check_completeness :: "string \<Rightarrow> string \<Rightarrow> completeness" where
  "check_completeness text doc_type =
     (let text_lower = lower text;
          required = get_default [] (map_of required_elements doc_type);
          found_n = length (filter (\<lambda>element. contains text_lower (lower element)) required);
          missing_l = filter (\<lambda>element. \<not> contains text_lower (lower element)) required;
          sc = (if required \<noteq> [] then (of_nat found_n / of_nat (length required)) * 100
                else 100)
      in \<lparr>score = py_round sc 1, found = found_n,
          total_required_elements = length required, missing = missing_l\<rparr>)"

definition calculate_quality_score :: "nat \<Rightarrow> string list \<Rightarrow> rat \<Rightarrow> rat" where
  "calculate_quality_score wc secs compl =
     (let length_score = min 100 ((of_nat wc / 1000) * 100);
          structure_score = min 100 ((of_nat (length secs) / 5) * 100);
          quality = compl * (1 / 2) + length_score * (1 / 4) + structure_score * (1 / 4)
      in py_round quality 1)"

subsection \<open>\<open>analyze_document\<close>\<close>

record document_analysis =
  document_type :: string
  word_count :: nat
  sentence_count :: nat
  sections_found :: nat
  sections :: "string list"
  frameworks_mentioned :: "string list"
  completeness_score :: rat
  missing_elements :: "string list"
  requirements_identified :: nat
  requirements :: "extracted_requirement list"
  quality_score :: rat

definition analyze_document :: "string \<Rightarrow> string \<Rightarrow> document_analysis" where
  "analyze_document document_text doc_type =
     (let wc = length (split_ws [] document_text);
          sentences = split_on (CHR ''.'') [] document_text;
          sc = length (filter (\<lambda>s. strip s \<noteq> []) sentences);
          secs = extract_sections document_text;
          fws = identify_frameworks document_text;
          compl = check_completeness document_text doc_type;
          reqs = extract_requirements document_text
      in \<lparr>document_type = doc_type,
          word_count = wc,
          sentence_count = sc,
          sections_found = length secs,
          sections = secs,
          frameworks_mentioned = fws,
          completeness_score = score compl,
          missing_elements = missing compl,
          requirements_identified = length reqs,
          requirements = reqs,
          quality_score = calculate_quality_score wc secs (score compl)\<rparr>)"

text \<open>Two texts for the examples.\<close>

definition sample_text_order :: string where
  "sample_text_order = ''We shall log all access. You must lock all doors.''"

definition sample_text_duplicate :: string where
  "sample_text_duplicate = ''You must wear a badge. We shall wear a badge.''"

section \<open>Recommendation engine: \<open>prioritize_remediation\<close>\<close>

text \<open>\<open>d[key] = value\<close>: a key already there keeps its place, a new key goes last.\<close>

fun dict_set :: "pydict \<Rightarrow> string \<Rightarrow> pyval \<Rightarrow> pydict" where
  "dict_set [] k v = [(k, v)]"
| "dict_set ((k', v') # d) k v =
     (if k' = k then (k, v) # d else (k', v') # dict_set d k v)"

text \<open>The three factors of the loop body, in its order, and their sum.\<close>

definition severity_points :: "pydict \<Rightarrow> int" where
  "severity_points g =
     (let p = get_default VNone (map_of g ''priority'')
      in if p = VStr ''Critical'' then 100
         else if p = VStr ''High'' then 75
         else if p = VStr ''Medium'' then 50
         else 25)"

definition complexity_points :: "pydict \<Rightarrow> int" where
  "complexity_points g =
     (let complexity = get_default (VStr ''Medium'') (map_of g ''complexity'')
      in if complexity = VStr ''Low'' then 30
         else if complexity = VStr ''Medium'' then 15
         else 0)"

definition cost_points :: "pydict \<Rightarrow> int" where
  "cost_points g =
     (let cost = get_default (VStr ''Medium'') (map_of g ''cost'')
      in if cost = VStr ''Low'' then 20
         else if cost = VStr ''Medium'' then 10
         else 0)"

definition priority_score :: "pydict \<Rightarrow> int" where
  "priority_score g = 0 + severity_points g + complexity_points g + cost_points g"

definition action_for :: "int \<Rightarrow> string" where
  "action_for ps =
     (if ps \<ge> 150 then ''Immediate - Start within 1 week''
      else if ps \<ge> 100 then ''High Priority - Start within 1 month''
      else if ps \<ge> 50 then ''Medium Priority - Plan for next quarter''
      else ''Low Priority - Address as resources allow'')"

text \<open>One turn of the loop: the gap with its two new entries.\<close>

definition score_gap :: "pydict \<Rightarrow> pydict" where
  "score_gap g =
     (let ps = priority_score g
      in dict_set (dict_set g ''priority_score'' (VInt ps)) ''action'' (VStr (action_for ps)))"

text \<open>The sort key \<open>x['priority_score']\<close>, an integer once the loop has run.\<close>

definition sort_key_of :: "pydict \<Rightarrow> int" where
  "sort_key_of g = (case map_of g ''priority_score'' of Some (VInt n) \<Rightarrow> n | _ \<Rightarrow> 0)"

text \<open>
  \<open>gaps.sort(key=..., reverse=True)\<close>: descending, and stable, so gaps with the same
  score stay in their order.
\<close>

definition prioritize_remediation :: "pydict list \<Rightarrow> pydict list" where
  "prioritize_remediation gaps_in =
     sort_key (\<lambda>g. - sort_key_of g) (map score_gap gaps_in)"

text \<open>The contributions and the urgency bands in the words of the specification.\<close>

definition spec_severity :: "pyval option \<Rightarrow> int" where
  "spec_severity p =
     (if p = Some (VStr ''Critical'') then 100 else if p = Some (VStr ''High'') then 75
      else if p = Some (VStr ''Medium'') then 50 else 25)"

definition spec_complexity :: "string \<rightharpoonup> int" where
  "spec_complexity = [''Low'' \<mapsto> 30, ''Medium'' \<mapsto> 15, ''High'' \<mapsto> 0]"

definition spec_cost :: "string \<rightharpoonup> int" where
  "spec_cost = [''Low'' \<mapsto> 20, ''Medium'' \<mapsto> 10, ''High'' \<mapsto> 0]"

definition spec_band :: "int \<Rightarrow> string" where
  "spec_band points =
     (if points \<ge> 150 then ''Immediate''
      else if points \<ge> 100 then ''High Priority''
      else if points \<ge> 50 then ''Medium Priority''
      else ''Low Priority'')"

text \<open>Two gaps for the examples.\<close>

definition sample_gap_high :: pydict where
  "sample_gap_high = [(''control_id'', VStr ''A.5.2''), (''priority'', VStr ''High'')]"

definition sample_gap_critical :: pydict where
  "sample_gap_critical =
     [(''control_id'', VStr ''A.5.1''), (''priority'', VStr ''Critical''),
      (''complexity'', VStr ''Low''), (''cost'', VStr ''Low'')]"

section \<open>Properties of the risk score\<close>

lemma threat_multiplier_spec: "threat_multiplier t = spec_multiplier t"
  by (simp add: threat_multiplier_def threat_multipliers_def get_default_def)

lemma classify_spec: "classify s = spec_tier s"
  by (simp add: classify_def spec_tier_def)

lemma final_score_spec:
  "final_score \<lparr>likelihood = Some l, impact = Some i,
      control_effectiveness = Some ce, threat_level = Some t\<rparr> = spec_score l i ce t"
  by (simp add: final_score_def adjusted_likelihood_def spec_score_def get_default_def
      threat_multiplier_spec del: spec_multiplier.simps)











lemma risk_score_eq: "risk_score (calculate_risk_score rd) = py_round (final_score rd) 2"
  by (simp add: calculate_risk_score_def Let_def split: prod.splits)

lemma classification_eq:
  "classification (calculate_risk_score rd) = fst (classify (final_score rd))"
  "priority (calculate_risk_score rd) = snd (classify (final_score rd))"
  by (simp_all add: calculate_risk_score_def Let_def split: prod.splits)



text \<open>
  Claim C10. The tier is decided on the score before rounding, the reported
  \<open>risk_score\<close> is the score rounded to two decimals. For likelihood 5, impact 3,
  controlEffectiveness 0.05 and threat level medium the score is 14.997: the record
  reports \<open>risk_score\<close> 15, the threshold of Critical, with classification High.
\<close>

theorem rounded_score_reaches_threshold_in_lower_tier:
  "risk_score (calculate_risk_score rd) = py_round (final_score rd) 2 \<and>
   classification (calculate_risk_score rd) = fst (classify (final_score rd)) \<and>
   (let r = calculate_risk_score \<lparr>likelihood = Some 5, impact = Some 3,
       control_effectiveness = Some (1 / 20), threat_level = Some ''medium''\<rparr>
    in risk_score r = 15 \<and> classification r = ''High'' \<and> priority r = 2 \<and>
       classify 15 = (''Critical'', 1))"
proof -
  have fs: "final_score \<lparr>likelihood = Some 5, impact = Some 3,
       control_effectiveness = Some (1 / 20), threat_level = Some ''medium''\<rparr> = 14997 / 1000"
    by (simp add: final_score_spec spec_score_def)
  have rn: "py_round (14997 / 1000) 2 = 15" by code_simp
  have cl: "classify (14997 / 1000) = (''High'', 2)" "classify 15 = (''Critical'', 1)"
    by (simp_all add: classify_def)
  show ?thesis
    unfolding Let_def risk_score_eq classification_eq fs rn cl by simp
qed

section \<open>Properties of the risk score in doubles\<close>

lemma pow2_pos: "0 < pow2 k"
  by (simp add: pow2_def)

lemma pow2_diff:
  assumes "0 \<le> a" "0 \<le> b"
  shows "pow2 (a - b) = 2 ^ nat a / 2 ^ nat b"
proof (cases "b \<le> a")
  case True
  then have "nat (a - b) = nat a - nat b" "nat b \<le> nat a" using assms by auto
  then show ?thesis using True by (simp add: pow2_def power_diff)
next
  case False
  then have "nat (b - a) = nat b - nat a" "nat a \<le> nat b" using assms by auto
  with False show ?thesis by (simp add: pow2_def power_diff)
qed

lemma ilog2_bounds:
  assumes "0 < x"
  shows "pow2 (ilog2 x) \<le> x \<and> x < pow2 (ilog2 x + 1)"
proof -
  obtain p q where pq: "quotient_of x = (p, q)" by (cases "quotient_of x")
  then have x: "x = of_int p / of_int q" and q: "0 < q"
    by (simp_all add: quotient_of_div quotient_of_denom_pos)
  from assms x q have p: "0 < p" by (simp add: zero_less_divide_iff)
  define d where "d = bitlen p - bitlen q"
  have bp: "1 \<le> bitlen p" and bq: "1 \<le> bitlen q"
    using p q by (simp_all add: bitlen_alt_def)
  have P: "(2::rat) ^ nat (bitlen p - 1) \<le> of_int p" "of_int p < (2::rat) ^ nat (bitlen p)"
    using bitlen_bounds [OF p] by (metis of_int_le_iff of_int_numeral of_int_power, metis of_int_less_iff of_int_numeral of_int_power)
  have Q: "(2::rat) ^ nat (bitlen q - 1) \<le> of_int q" "of_int q < (2::rat) ^ nat (bitlen q)"
    using bitlen_bounds [OF q] by (metis of_int_le_iff of_int_numeral of_int_power, metis of_int_less_iff of_int_numeral of_int_power)
  have qpos: "(0::rat) < of_int q" using q by simp
  have ppos: "(0::rat) < of_int p" using p by simp
  have up: "x < pow2 (d + 1)"
  proof -
    have "pow2 (d + 1) = 2 ^ nat (bitlen p) / 2 ^ nat (bitlen q - 1)"
      using pow2_diff [of "bitlen p" "bitlen q - 1"] bp bq by (simp add: d_def algebra_simps)
    moreover have "x < 2 ^ nat (bitlen p) / of_int q"
      unfolding x using P(2) qpos by (simp add: divide_strict_right_mono)
    moreover have "(2::rat) ^ nat (bitlen p) / of_int q \<le> 2 ^ nat (bitlen p) / 2 ^ nat (bitlen q - 1)"
      using Q(1) by (simp add: frac_le)
    ultimately show ?thesis by linarith
  qed
  have low: "pow2 (d - 1) \<le> x"
  proof -
    have "pow2 (d - 1) = 2 ^ nat (bitlen p - 1) / 2 ^ nat (bitlen q)"
      using pow2_diff [of "bitlen p - 1" "bitlen q"] bp bq by (simp add: d_def algebra_simps)
    moreover have "(2::rat) ^ nat (bitlen p - 1) / 2 ^ nat (bitlen q) \<le> of_int p / 2 ^ nat (bitlen q)"
      using P(1) by (simp add: divide_right_mono)
    moreover have "of_int p / (2::rat) ^ nat (bitlen q) \<le> x"
      unfolding x using Q(2) ppos qpos by (simp add: frac_le)
    ultimately show ?thesis by linarith
  qed
  have il: "ilog2 x = (if pow2 d \<le> x then d else d - 1)"
    by (simp add: ilog2_def pq d_def Let_def)
  show ?thesis
  proof (cases "pow2 d \<le> x")
    case True
    with il up show ?thesis by simp
  next
    case False
    with il low show ?thesis by simp
  qed
qed


lemma threat_multiplier_double_spec: "threat_multiplier_double t = spec_multiplier_double t"
  by (simp add: threat_multiplier_double_def threat_multipliers_double_def
      spec_multiplier_double_def get_default_def)

lemma final_score_double_spec:
  "final_score_double \<lparr>likelihood = Some l, impact = Some i,
      control_effectiveness = Some ce, threat_level = Some t\<rparr> = spec_score_double l i ce t"
  by (simp add: final_score_double_def adjusted_likelihood_double_def spec_score_double_def
      get_default_def threat_multiplier_double_spec)

lemma risk_score_double_eq:
  "risk_score (calculate_risk_score_double rd) = py_round_double (final_score_double rd) 2"
  by (simp add: calculate_risk_score_double_def Let_def split: prod.splits)

lemma classification_double_eq:
  "(classification (calculate_risk_score_double rd), priority (calculate_risk_score_double rd))
     = classify (final_score_double rd)"
  by (simp add: calculate_risk_score_double_def Let_def split: prod.splits)

lemma near_thresholds:
  "10 \<le> fl (14999 / 1000) \<and> fl (14999 / 1000) < 15"
  "5 \<le> fl (9999 / 1000) \<and> fl (9999 / 1000) < 10"
  "fl (4999 / 1000) < 5"
  by code_simp+

text \<open>
  Claim C1. For likelihood and impact in 1-5 and controlEffectiveness in 0-100, the score
  \<open>calculate_risk_score\<close> computes in doubles is
  \<open>likelihood * (1 - controlEffectiveness/100 * 0.4) * impact * threatMultiplier\<close>,
  evaluated as Python evaluates that expression, with the multipliers low 0.8, medium
  1.0, high 1.3, critical 1.5 and any other threat level counted as medium. The reported
  \<open>risk_score\<close> is that score rounded to two decimals, and the tier is decided on the
  score itself: Critical (priority 1) from 15 up, High (2) from 10 up to 15, Medium (3)
  from 5 up to 10, Low (4) below 5. A score of exactly 15 is Critical and the double
  14.999 is High, and likewise at 10 and at 5.
\<close>

theorem calculate_risk_score_double_spec:
  assumes "1 \<le> l" "l \<le> 5" and "1 \<le> i" "i \<le> 5" and "0 \<le> ce" "ce \<le> 100"
  shows "let rd = \<lparr>likelihood = Some l, impact = Some i,
                control_effectiveness = Some ce, threat_level = Some t\<rparr>;
             r = calculate_risk_score_double rd;
             s = spec_score_double l i ce t
         in final_score_double rd = s \<and> risk_score r = py_round_double s 2 \<and>
            (classification r, priority r) = spec_tier s \<and>
            (s = 15 \<longrightarrow> classification r = ''Critical'' \<and> priority r = 1) \<and>
            (s = fl (14999 / 1000) \<longrightarrow> classification r = ''High'' \<and> priority r = 2) \<and>
            (s = 10 \<longrightarrow> classification r = ''High'' \<and> priority r = 2) \<and>
            (s = fl (9999 / 1000) \<longrightarrow> classification r = ''Medium'' \<and> priority r = 3) \<and>
            (s = 5 \<longrightarrow> classification r = ''Medium'' \<and> priority r = 3) \<and>
            (s = fl (4999 / 1000) \<longrightarrow> classification r = ''Low'' \<and> priority r = 4) \<and>
            (t \<notin> {''low'', ''medium'', ''high'', ''critical''} \<longrightarrow>
               s = spec_score_double l i ce ''medium'')"
proof -
  define rd where "rd = \<lparr>likelihood = Some l, impact = Some i,
                control_effectiveness = Some ce, threat_level = Some t\<rparr>"
  define s where "s = spec_score_double l i ce t"
  have fs: "final_score_double rd = s"
    unfolding rd_def s_def by (rule final_score_double_spec)
  have rs: "risk_score (calculate_risk_score_double rd) = py_round_double s 2"
    unfolding risk_score_double_eq fs ..
  have cl: "(classification (calculate_risk_score_double rd),
             priority (calculate_risk_score_double rd)) = spec_tier s"
    unfolding classification_double_eq fs classify_spec ..
  have t15: "spec_tier 15 = (''Critical'', 1)" "spec_tier 10 = (''High'', 2)"
    "spec_tier 5 = (''Medium'', 3)"
    by (simp_all add: spec_tier_def)
  have tnear: "spec_tier (fl (14999 / 1000)) = (''High'', 2)"
    "spec_tier (fl (9999 / 1000)) = (''Medium'', 3)"
    "spec_tier (fl (4999 / 1000)) = (''Low'', 4)"
    using near_thresholds by (simp_all add: spec_tier_def)
  have other: "t \<notin> {''low'', ''medium'', ''high'', ''critical''} \<longrightarrow>
      s = spec_score_double l i ce ''medium''"
    by (simp add: s_def spec_score_double_def spec_multiplier_double_def)
  have tiers: "(s = 15 \<longrightarrow> spec_tier s = (''Critical'', 1)) \<and>
      (s = fl (14999 / 1000) \<longrightarrow> spec_tier s = (''High'', 2)) \<and>
      (s = 10 \<longrightarrow> spec_tier s = (''High'', 2)) \<and>
      (s = fl (9999 / 1000) \<longrightarrow> spec_tier s = (''Medium'', 3)) \<and>
      (s = 5 \<longrightarrow> spec_tier s = (''Medium'', 3)) \<and>
      (s = fl (4999 / 1000) \<longrightarrow> spec_tier s = (''Low'', 4))"
    using t15 tnear by simp
  have c1: "classification (calculate_risk_score_double rd) = fst (spec_tier s)"
    using cl by (metis fst_conv)
  have c2: "priority (calculate_risk_score_double rd) = snd (spec_tier s)"
    using cl by (metis snd_conv)
  have marks: "(s = 15 \<longrightarrow> classification (calculate_risk_score_double rd) = ''Critical'' \<and>
         priority (calculate_risk_score_double rd) = 1) \<and>
      (s = fl (14999 / 1000) \<longrightarrow> classification (calculate_risk_score_double rd) = ''High'' \<and>
         priority (calculate_risk_score_double rd) = 2) \<and>
      (s = 10 \<longrightarrow> classification (calculate_risk_score_double rd) = ''High'' \<and>
         priority (calculate_risk_score_double rd) = 2) \<and>
      (s = fl (9999 / 1000) \<longrightarrow> classification (calculate_risk_score_double rd) = ''Medium'' \<and>
         priority (calculate_risk_score_double rd) = 3) \<and>
      (s = 5 \<longrightarrow> classification (calculate_risk_score_double rd) = ''Medium'' \<and>
         priority (calculate_risk_score_double rd) = 3) \<and>
      (s = fl (4999 / 1000) \<longrightarrow> classification (calculate_risk_score_double rd) = ''Low'' \<and>
         priority (calculate_risk_score_double rd) = 4)"
    unfolding c1 c2 using tiers by (intro conjI impI) simp_all
  show ?thesis
    unfolding Let_def rd_def [symmetric] s_def [symmetric]
    by (intro conjI) (rule fs rs cl other marks [THEN conjunct1]
        marks [THEN conjunct2, THEN conjunct1]
        marks [THEN conjunct2, THEN conjunct2, THEN conjunct1]
        marks [THEN conjunct2, THEN conjunct2, THEN conjunct2, THEN conjunct1]
        marks [THEN conjunct2, THEN conjunct2, THEN conjunct2, THEN conjunct2, THEN conjunct1]
        marks [THEN conjunct2, THEN conjunct2, THEN conjunct2, THEN conjunct2, THEN conjunct2])+
qed


theorem calculate_risk_score_double_spec_witness:
  "final_score_double \<lparr>likelihood = Some 4, impact = Some 3,
       control_effectiveness = Some (fl (4166666666666667 / 100000000000000)),
       threat_level = Some ''critical''\<rparr> = 15 \<and>
   classification (calculate_risk_score_double \<lparr>likelihood = Some 4, impact = Some 3,
       control_effectiveness = Some (fl (4166666666666667 / 100000000000000)),
       threat_level = Some ''critical''\<rparr>) = ''Critical'' \<and>
   risk_score (calculate_risk_score_double \<lparr>likelihood = Some 1, impact = Some 3,
       control_effectiveness = Some (15 / 2), threat_level = Some ''critical''\<rparr>)
     = fl (437 / 100)"
proof -
  have ce: "0 \<le> fl (4166666666666667 / 100000000000000)"
    "fl (4166666666666667 / 100000000000000) \<le> 100"
    by code_simp+
  have s1: "spec_score_double 4 3 (fl (4166666666666667 / 100000000000000)) ''critical'' = 15"
    by code_simp
  have s2: "py_round_double (spec_score_double 1 3 (15 / 2) ''critical'') 2 = fl (437 / 100)"
    by code_simp
  from calculate_risk_score_double_spec
    [of 4 3 "fl (4166666666666667 / 100000000000000)" "''critical''"] ce s1
  have a: "final_score_double \<lparr>likelihood = Some 4, impact = Some 3,
       control_effectiveness = Some (fl (4166666666666667 / 100000000000000)),
       threat_level = Some ''critical''\<rparr> = 15 \<and>
   classification (calculate_risk_score_double \<lparr>likelihood = Some 4, impact = Some 3,
       control_effectiveness = Some (fl (4166666666666667 / 100000000000000)),
       threat_level = Some ''critical''\<rparr>) = ''Critical''"
    by (simp add: Let_def)
  from calculate_risk_score_double_spec [of 1 3 "15 / 2" "''critical''"] s2
  have b: "risk_score (calculate_risk_score_double \<lparr>likelihood = Some 1, impact = Some 3,
       control_effectiveness = Some (15 / 2), threat_level = Some ''critical''\<rparr>)
     = fl (437 / 100)"
    by (simp add: Let_def)
  from a b show ?thesis by simp
qed

section \<open>Properties of emerging-risk prediction and gap analysis\<close>

lemma length_add_metadata_all [simp]: "length (add_metadata_all clock k rs) = length rs"
  by (induction rs arbitrary: k) simp_all

lemma nth_add_metadata_all:
  "j < length rs \<Longrightarrow> add_metadata_all clock k rs ! j = add_metadata (clock (k + j)) (rs ! j)"
proof (induction rs arbitrary: k j)
  case Nil
  then show ?case by simp
next
  case (Cons r rs)
  then show ?case by (cases j) simp_all
qed

lemma add_metadata_fields:
  "predicted_on (add_metadata s r) = s"
  "time_horizon (add_metadata s r) = ''6-12 months''"
  "predicted_likelihood (add_metadata s r) = py_int (probability r * 5)"
  "predicted_impact (add_metadata s r) = 4"
  "probability (add_metadata s r) = probability r"
  "name (add_metadata s r) = name r"
  by (simp_all add: add_metadata_def base_risk.extend_def emerging_risk.fields_def base_risk.defs emerging_risk.defs)

lemma catalogue_probability:
  "r \<in> set (get_default [] (map_of emerging_risks_db k)) \<Longrightarrow>
     probability r \<in> {75 / 100, 68 / 100, 80 / 100, 72 / 100, 85 / 100, 70 / 100}"
  by (auto simp: emerging_risks_db_def get_default_def split: if_splits)

lemma catalogue_likelihood:
  assumes "r \<in> set (get_default [] (map_of emerging_risks_db k))"
  shows "py_int (probability r * 5) = \<lfloor>probability r * 5\<rfloor>"
    and "1 \<le> py_int (probability r * 5)" and "py_int (probability r * 5) \<le> 5"
  using catalogue_probability [OF assms] by (auto simp: py_int_def)














text \<open>
  What line 79 decides: on \<open>gdpr\<close> with no control implemented, the result is there
  when the second entry has a priority and is a \<open>KeyError\<close> when it has none.
\<close>

lemma gdpr_depends_on_line79:
  "(\<exists>r. analyze_gaps (Some v) now ''gdpr'' [] = Inr r) \<and>
   analyze_gaps None now ''gdpr'' [] = Inl (KeyError ''priority'')"
  by (simp add: analyze_gaps_def frameworks_def load_gdpr_requirements_def missing_gap_def
      Let_def)


text \<open>
  Claim C2, as the code has it. Every record returned by \<open>predict_emerging_risks\<close>
  carries \<open>predicted_likelihood = int(probability * 5)\<close>, the product cut down to
  an integer (its floor, the probabilities being positive), which lies in 1-5 for
  every entry of the catalogue; \<open>predicted_impact\<close> 4; the horizon label
  \<open>6-12 months\<close>; and the timestamp read for that record.
\<close>

theorem predicted_likelihood_truncates:
  assumes "predict_emerging_risks clock industry current_risks = Inr rs" and "j < length rs"
  shows "predicted_likelihood (rs ! j) = py_int (probability (rs ! j) * 5) \<and>
         predicted_likelihood (rs ! j) = \<lfloor>probability (rs ! j) * 5\<rfloor> \<and>
         1 \<le> predicted_likelihood (rs ! j) \<and> predicted_likelihood (rs ! j) \<le> 5 \<and>
         predicted_impact (rs ! j) = 4 \<and>
         time_horizon (rs ! j) = ''6-12 months'' \<and>
         predicted_on (rs ! j) = clock j"
proof -
  define base where "base = get_default [] (map_of emerging_risks_db (lower industry))"
  from assms(1) obtain ns where
    rs: "rs = add_metadata_all clock 0 (filter (\<lambda>risk. lower (name risk) \<notin> set ns) base)"
    by (auto simp: predict_emerging_risks_def Let_def base_def split: sum.splits)
  define new where "new = filter (\<lambda>risk. lower (name risk) \<notin> set ns) base"
  have j: "j < length new" using assms(2) rs by (simp add: new_def)
  have nth: "rs ! j = add_metadata (clock j) (new ! j)"
    using nth_add_metadata_all [OF j, of clock 0] rs by (simp add: new_def)
  have "new ! j \<in> set new" using j by simp
  then have mem: "new ! j \<in> set (get_default [] (map_of emerging_risks_db (lower industry)))"
    by (simp add: new_def base_def)
  show ?thesis
    using catalogue_likelihood [OF mem]
    by (simp add: nth add_metadata_fields)
qed

theorem predicted_likelihood_truncates_witness:
  "predict_emerging_risks sample_clock ''Finance'' [[(''name'', VStr ''Digital Payment Fraud'')]] =
     Inr [\<lparr>name = ''Regulatory Compliance Changes'', category = ''Compliance'',
           probability = 80 / 100,
           description = ''New financial regulations and reporting requirements'',
           predicted_on = ''2024-01-01T00:00:00'', time_horizon = ''6-12 months'',
           predicted_likelihood = 4, predicted_impact = 4\<rparr>] \<and>
   (4::int) = \<lfloor>80 / 100 * 5 :: rat\<rfloor>"
proof -
  have r: "predict_emerging_risks sample_clock ''Finance''
      [[(''name'', VStr ''Digital Payment Fraud'')]] =
     Inr [\<lparr>name = ''Regulatory Compliance Changes'', category = ''Compliance'',
           probability = 80 / 100,
           description = ''New financial regulations and reporting requirements'',
           predicted_on = ''2024-01-01T00:00:00'', time_horizon = ''6-12 months'',
           predicted_likelihood = 4, predicted_impact = 4\<rparr>]"
    by code_simp
  from predicted_likelihood_truncates [OF r, of 0] r show ?thesis by simp
qed

text \<open>
  Claim C2 as stated fails: for the industry \<open>technology\<close> and no current risks the
  first record has probability 0.75 and \<open>predicted_likelihood\<close> 3, while
  \<open>round(0.75 * 5)\<close> is 4.
\<close>

theorem predicted_likelihood_round_counterexample:
  "predict_emerging_risks sample_clock ''technology'' [] =
     Inr [\<lparr>name = ''AI/ML Security Vulnerabilities'', category = ''Cybersecurity'',
           probability = 75 / 100,
           description = ''Risks from AI model poisoning and adversarial attacks'',
           predicted_on = ''2024-01-01T00:00:00'', time_horizon = ''6-12 months'',
           predicted_likelihood = 3, predicted_impact = 4\<rparr>,
          \<lparr>name = ''Supply Chain Software Risks'', category = ''Third Party'',
           probability = 68 / 100,
           description = ''Vulnerabilities in dependencies and open-source components'',
           predicted_on = ''2024-01-01T00:00:00'', time_horizon = ''6-12 months'',
           predicted_likelihood = 3, predicted_impact = 4\<rparr>] \<and>
   py_round0 (75 / 100 * 5) = 4 \<and> (3::int) \<noteq> 4"
  by code_simp

section \<open>Properties of document completeness and remediation priorities\<close>


lemma py_round_100: "py_round 100 (Suc 0) = 100"
  by (simp add: py_round_def py_round0_def)

text \<open>
  Claim C8. For every document text, \<open>analyze_document\<close> with a document type
  other than \<open>policy\<close>, \<open>procedure\<close> and \<open>contract\<close> has an empty checklist of
  required elements and returns \<open>completeness_score\<close> 100 with no missing element.
\<close>

theorem unknown_document_type_complete:
  assumes "doc_type \<notin> {''policy'', ''procedure'', ''contract''}"
  shows "get_default [] (map_of required_elements doc_type) = [] \<and>
         completeness_score (analyze_document text doc_type) = 100 \<and>
         missing_elements (analyze_document text doc_type) = []"
proof -
  have req: "get_default [] (map_of required_elements doc_type) = []"
    using assms by (simp add: required_elements_def get_default_def)
  have "score (check_completeness text doc_type) = 100"
    "missing (check_completeness text doc_type) = []"
    by (simp_all add: check_completeness_def Let_def req py_round_100)
  then show ?thesis
    using req by (simp add: analyze_document_def Let_def)
qed

theorem unknown_document_type_complete_witness:
  "completeness_score (analyze_document ''Minutes of the meeting.'' ''memo'') = 100 \<and>
   missing_elements (analyze_document ''Minutes of the meeting.'' ''memo'') = []"
  using unknown_document_type_complete [of "''memo''" "''Minutes of the meeting.''"]
  by simp

lemma map_of_dict_set: "map_of (dict_set d k v) k' = (if k' = k then Some v else map_of d k')"
  by (induction d k v rule: dict_set.induct) auto

lemma score_gap_lookup:
  "map_of (score_gap g) ''priority_score'' = Some (VInt (priority_score g))"
  "map_of (score_gap g) ''action'' = Some (VStr (action_for (priority_score g)))"
  "k \<noteq> ''priority_score'' \<Longrightarrow> k \<noteq> ''action'' \<Longrightarrow> map_of (score_gap g) k = map_of g k"
  by (simp_all add: score_gap_def Let_def map_of_dict_set)

lemma sort_key_of_score_gap: "sort_key_of (score_gap g) = priority_score g"
  by (simp add: sort_key_of_def score_gap_lookup)

lemma action_band: "\<exists>rest. action_for n = spec_band n @ rest"
  by (simp add: action_for_def spec_band_def)

lemma severity_points_spec: "severity_points g = spec_severity (map_of g ''priority'')"
  by (cases "map_of g ''priority''")
    (auto simp: severity_points_def spec_severity_def get_default_def)

lemma complexity_points_spec:
  "map_of g ''complexity'' = Some (VStr c) \<Longrightarrow> spec_complexity c = Some cp \<Longrightarrow>
     complexity_points g = cp"
  by (auto simp: complexity_points_def spec_complexity_def get_default_def split: if_splits)

lemma cost_points_spec:
  "map_of g ''cost'' = Some (VStr k) \<Longrightarrow> spec_cost k = Some kp \<Longrightarrow> cost_points g = kp"
  by (auto simp: cost_points_def spec_cost_def get_default_def split: if_splits)

lemma sorted_desc: "sorted (map (\<lambda>g. - f g) xs) \<Longrightarrow> sorted_wrt (\<ge>) (map (f :: 'a \<Rightarrow> int) xs)"
  by (induction xs) auto


text \<open>
  Claim C7. \<open>prioritize_remediation\<close> returns the gaps it was given, each with its
  \<open>priority_score\<close> and \<open>action\<close>, sorted by descending score, gaps of equal score
  in their input order. The score is the sum of the severity points (Critical 100,
  High 75, Medium 50, otherwise 25), the complexity points (Low 30, Medium 15, High 0)
  and the cost points (Low 20, Medium 10, High 0); the action begins with the band of
  the score: Immediate from 150, High Priority from 100, Medium Priority from 50, Low
  Priority below. A gap with priority Critical, complexity Low and cost Low gets the
  score 150 and the Immediate action.
\<close>

theorem prioritize_remediation_spec:
  "mset (prioritize_remediation gs) = mset (map score_gap gs) \<and>
   sorted_wrt (\<ge>) (map sort_key_of (prioritize_remediation gs)) \<and>
   (\<forall>n. filter (\<lambda>g. sort_key_of g = n) (prioritize_remediation gs)
        = filter (\<lambda>g. sort_key_of g = n) (map score_gap gs)) \<and>
   (\<forall>g \<in> set gs.
      map_of (score_gap g) ''priority_score'' = Some (VInt (priority_score g)) \<and>
      sort_key_of (score_gap g) = priority_score g \<and>
      priority_score g = severity_points g + complexity_points g + cost_points g \<and>
      severity_points g = spec_severity (map_of g ''priority'') \<and>
      (\<forall>c cp. map_of g ''complexity'' = Some (VStr c) \<and> spec_complexity c = Some cp
          \<longrightarrow> complexity_points g = cp) \<and>
      (\<forall>k kp. map_of g ''cost'' = Some (VStr k) \<and> spec_cost k = Some kp
          \<longrightarrow> cost_points g = kp) \<and>
      (\<exists>rest. map_of (score_gap g) ''action'' = Some (VStr (spec_band (priority_score g) @ rest))) \<and>
      (map_of g ''priority'' = Some (VStr ''Critical'') \<and>
       map_of g ''complexity'' = Some (VStr ''Low'') \<and>
       map_of g ''cost'' = Some (VStr ''Low'') \<longrightarrow>
         map_of (score_gap g) ''priority_score'' = Some (VInt 150) \<and>
         map_of (score_gap g) ''action'' = Some (VStr ''Immediate - Start within 1 week'')))"
proof -
  have perm: "mset (prioritize_remediation gs) = mset (map score_gap gs)"
    by (simp add: prioritize_remediation_def)
  have "sorted (map (\<lambda>g. - sort_key_of g) (prioritize_remediation gs))"
    unfolding prioritize_remediation_def by (rule sorted_sort_key)
  then have desc: "sorted_wrt (\<ge>) (map sort_key_of (prioritize_remediation gs))"
    by (rule sorted_desc)
  have stable: "filter (\<lambda>g. sort_key_of g = n) (prioritize_remediation gs)
        = filter (\<lambda>g. sort_key_of g = n) (map score_gap gs)" for n
    using sort_key_stable [of "\<lambda>g. - sort_key_of g" "- n" "map score_gap gs"]
    by (simp add: prioritize_remediation_def)
  have each: "map_of (score_gap g) ''priority_score'' = Some (VInt (priority_score g)) \<and>
      sort_key_of (score_gap g) = priority_score g \<and>
      priority_score g = severity_points g + complexity_points g + cost_points g \<and>
      severity_points g = spec_severity (map_of g ''priority'') \<and>
      (\<forall>c cp. map_of g ''complexity'' = Some (VStr c) \<and> spec_complexity c = Some cp
          \<longrightarrow> complexity_points g = cp) \<and>
      (\<forall>k kp. map_of g ''cost'' = Some (VStr k) \<and> spec_cost k = Some kp
          \<longrightarrow> cost_points g = kp) \<and>
      (\<exists>rest. map_of (score_gap g) ''action'' = Some (VStr (spec_band (priority_score g) @ rest))) \<and>
      (map_of g ''priority'' = Some (VStr ''Critical'') \<and>
       map_of g ''complexity'' = Some (VStr ''Low'') \<and>
       map_of g ''cost'' = Some (VStr ''Low'') \<longrightarrow>
         map_of (score_gap g) ''priority_score'' = Some (VInt 150) \<and>
         map_of (score_gap g) ''action'' = Some (VStr ''Immediate - Start within 1 week''))" for g
  proof -
    have s: "severity_points g = spec_severity (map_of g ''priority'')"
      by (rule severity_points_spec)
    have c: "complexity_points g = cp"
      if "map_of g ''complexity'' = Some (VStr c)" "spec_complexity c = Some cp" for c cp
      using that by (rule complexity_points_spec)
    have k: "cost_points g = kp"
      if "map_of g ''cost'' = Some (VStr k)" "spec_cost k = Some kp" for k kp
      using that by (rule cost_points_spec)
    have top: "priority_score g = 150"
      if "map_of g ''priority'' = Some (VStr ''Critical'')"
        "map_of g ''complexity'' = Some (VStr ''Low'')" "map_of g ''cost'' = Some (VStr ''Low'')"
      using that
      by (simp add: priority_score_def severity_points_def complexity_points_def
          cost_points_def get_default_def)
    have act: "\<exists>rest. action_for (priority_score g) = spec_band (priority_score g) @ rest"
      by (rule action_band)
    have a150: "action_for 150 = ''Immediate - Start within 1 week''"
      by (simp add: action_for_def)
    show ?thesis
      using s c k top act a150
      by (simp add: score_gap_lookup sort_key_of_score_gap priority_score_def)
  qed
  from perm desc stable each show ?thesis by blast
qed

theorem prioritize_remediation_spec_witness:
  "prioritize_remediation [sample_gap_high, sample_gap_critical] =
     [sample_gap_critical @
        [(''priority_score'', VInt 150), (''action'', VStr ''Immediate - Start within 1 week'')],
      sample_gap_high @
        [(''priority_score'', VInt 100),
         (''action'', VStr ''High Priority - Start within 1 month'')]] \<and>
   sorted_wrt (\<ge>) (map sort_key_of (prioritize_remediation [sample_gap_high, sample_gap_critical])) \<and>
   map_of (score_gap sample_gap_critical) ''priority_score'' = Some (VInt 150)"
proof -
  have run: "prioritize_remediation [sample_gap_high, sample_gap_critical] =
     [sample_gap_critical @
        [(''priority_score'', VInt 150), (''action'', VStr ''Immediate - Start within 1 week'')],
      sample_gap_high @
        [(''priority_score'', VInt 100),
         (''action'', VStr ''High Priority - Start within 1 month'')]]"
    by code_simp
  note spec = prioritize_remediation_spec [of "[sample_gap_high, sample_gap_critical]"]
  from spec have srt:
    "sorted_wrt (\<ge>) (map sort_key_of (prioritize_remediation [sample_gap_high, sample_gap_critical]))"
    by (rule conjunct1 [OF conjunct2])
  from spec have "\<forall>g \<in> set [sample_gap_high, sample_gap_critical].
      map_of g ''priority'' = Some (VStr ''Critical'') \<and>
      map_of g ''complexity'' = Some (VStr ''Low'') \<and>
      map_of g ''cost'' = Some (VStr ''Low'') \<longrightarrow>
        map_of (score_gap g) ''priority_score'' = Some (VInt 150)"
    by blast
  then have "map_of (score_gap sample_gap_critical) ''priority_score'' = Some (VInt 150)"
    by (simp add: sample_gap_critical_def)
  with run srt show ?thesis by blast
qed

section \<open>Properties of requirement extraction\<close>

lemma match_at_length: "match_at kw s = Some (g, n) \<Longrightarrow> 0 < n"
  by (auto simp: match_at_def Let_def split: if_splits)

lemma finditer_positions:
  "sorted_wrt (<) (map fst (finditer kw pos s)) \<and> (\<forall>m \<in> set (finditer kw pos s). pos \<le> fst m)"
proof (induction kw pos s rule: finditer.induct)
  case (1 kw pos s)
  show ?case
  proof (cases "s = []")
    case True
    then show ?thesis by (subst finditer.simps, subst finditer.simps) simp
  next
    case ne: False
    show ?thesis
    proof (cases "match_at kw s")
      case None
      with ne "1.IH" have
        "sorted_wrt (<) (map fst (finditer kw (Suc pos) (tl s)))"
        "\<forall>m \<in> set (finditer kw (Suc pos) (tl s)). Suc pos \<le> fst m"
        by simp_all
      moreover have "finditer kw pos s = finditer kw (Suc pos) (tl s)"
        using ne None by (subst finditer.simps) simp
      ultimately show ?thesis by auto
    next
      case (Some gn)
      obtain g n where gn: "gn = (g, n)" by (cases gn)
      with Some have m: "match_at kw s = Some (g, n)" by simp
      then have n: "0 < n" by (rule match_at_length)
      from ne m "1.IH" have
        "sorted_wrt (<) (map fst (finditer kw (pos + n) (drop n s)))"
        "\<forall>m \<in> set (finditer kw (pos + n) (drop n s)). pos + n \<le> fst m"
        by simp_all
      moreover have "finditer kw pos s = (pos, g) # finditer kw (pos + n) (drop n s)"
        using ne m by (subst finditer.simps) simp
      ultimately show ?thesis using n by auto
    qed
  qed
qed

lemma position_requirement_of: "position (requirement_of m) = fst m"
  by (simp add: requirement_of_def)

lemma pattern_positions:
  "sorted_wrt (<) (map position (pattern_requirements t kw))"
proof -
  have "sorted_wrt (\<lambda>a b. fst a < fst b) (finditer kw 0 t)"
    using finditer_positions [of kw 0 t] by (simp add: sorted_wrt_map)
  then have "sorted_wrt (\<lambda>a b. fst a < fst b) (filter keep_match (finditer kw 0 t))"
    by (rule sorted_wrt_filter)
  then show ?thesis
    by (simp add: pattern_requirements_def sorted_wrt_map position_requirement_of)
qed

lemma unique_reqs_distinct:
  "distinct (map req_text (unique_reqs seen rs)) \<and>
   (\<forall>r \<in> set (unique_reqs seen rs). req_text r \<notin> set seen)"
proof (induction rs arbitrary: seen)
  case Nil
  then show ?case by simp
next
  case (Cons a rs)
  show ?case
  proof (cases "req_text a \<in> set seen")
    case True
    with Cons.IH [of seen] show ?thesis by simp
  next
    case False
    with Cons.IH [of "req_text a # seen"] show ?thesis by auto
  qed
qed

lemma unique_reqs_first:
  "r \<in> set (unique_reqs seen rs) \<Longrightarrow> find (\<lambda>c. req_text c = req_text r) rs = Some r"
proof (induction rs arbitrary: seen)
  case Nil
  then show ?case by simp
next
  case (Cons a rs)
  show ?case
  proof (cases "req_text a \<in> set seen")
    case True
    with Cons.prems have in_rest: "r \<in> set (unique_reqs seen rs)" by simp
    then have "req_text r \<notin> set seen" using unique_reqs_distinct [of seen rs] by blast
    with True have "req_text a \<noteq> req_text r" by auto
    with Cons.IH [OF in_rest] show ?thesis by simp
  next
    case False
    with Cons.prems have "r = a \<or> r \<in> set (unique_reqs (req_text a # seen) rs)" by auto
    then show ?thesis
    proof
      assume "r = a"
      then show ?thesis by simp
    next
      assume in_rest: "r \<in> set (unique_reqs (req_text a # seen) rs)"
      then have "req_text r \<notin> set (req_text a # seen)"
        using unique_reqs_distinct [of "req_text a # seen" rs] by blast
      then have "req_text a \<noteq> req_text r" by auto
      with Cons.IH [OF in_rest] show ?thesis by simp
    qed
  qed
qed

lemma unique_reqs_subseq: "subseq (unique_reqs seen rs) rs"
  by (induction rs arbitrary: seen) auto

lemma unique_reqs_texts:
  "req_text ` set (unique_reqs seen rs) = req_text ` set rs - set seen"
  by (induction rs arbitrary: seen) auto

lemma subseq_take: "subseq (take n xs) xs"
  by (metis append_take_drop_id subseq_order.order_refl subseq_append_le_same_iff list_emb_append2
      prefix_imp_subseq take_is_prefix)




lemma matched_requirements_unfold:
  "matched_requirements t =
     pattern_requirements t ''must'' @ pattern_requirements t ''shall'' @
     pattern_requirements t ''required to'' @ pattern_requirements t ''mandatory''"
  by (simp add: matched_requirements_def requirement_patterns_def)

lemma extract_subseq: "subseq (extract_requirements t) (matched_requirements t)"
proof -
  have "subseq (extract_requirements t) (unique_reqs [] (matched_requirements t))"
    unfolding extract_requirements_def by (rule subseq_take)
  also have "subseq \<dots> (matched_requirements t)" by (rule unique_reqs_subseq)
  finally show ?thesis .
qed

lemma extract_set: "set (extract_requirements t) \<subseteq> set (unique_reqs [] (matched_requirements t))"
  unfolding extract_requirements_def by (rule set_take_subset)

lemma extract_all_when_short:
  assumes "length (extract_requirements t) < 10"
  shows "req_text ` set (extract_requirements t) = req_text ` set (matched_requirements t)"
proof -
  have "length (unique_reqs [] (matched_requirements t)) < 10"
    using assms unfolding extract_requirements_def by (simp add: min_def split: if_splits)
  then have "extract_requirements t = unique_reqs [] (matched_requirements t)"
    unfolding extract_requirements_def by simp
  then show ?thesis by (simp add: unique_reqs_texts)
qed

text \<open>
  Claim C5, as the code has it. For every text, \<open>_extract_requirements\<close> returns at
  most 10 requirements with pairwise different texts, each the first match with its
  text. They come in the order of the scan: all matches of \<open>must\<close>, then of \<open>shall\<close>,
  then of \<open>required to\<close>, then of \<open>mandatory\<close>, the matches of one pattern by
  increasing position; the result is a subsequence of that list. When fewer than 10 are
  returned, every matched text is among them.
\<close>

theorem extract_requirements_pattern_order:
  "length (extract_requirements t) \<le> 10 \<and>
   distinct (map req_text (extract_requirements t)) \<and>
   (\<forall>r \<in> set (extract_requirements t).
      find (\<lambda>c. req_text c = req_text r) (matched_requirements t) = Some r) \<and>
   subseq (extract_requirements t) (matched_requirements t) \<and>
   matched_requirements t =
     pattern_requirements t ''must'' @ pattern_requirements t ''shall'' @
     pattern_requirements t ''required to'' @ pattern_requirements t ''mandatory'' \<and>
   (\<forall>kw. sorted_wrt (<) (map position (pattern_requirements t kw))) \<and>
   (length (extract_requirements t) < 10 \<longrightarrow>
      req_text ` set (extract_requirements t) = req_text ` set (matched_requirements t))"
proof -
  have len: "length (extract_requirements t) \<le> 10"
    by (simp add: extract_requirements_def)
  have "distinct (map req_text (unique_reqs [] (matched_requirements t)))"
    using unique_reqs_distinct [of "[]" "matched_requirements t"] by simp
  then have dist: "distinct (map req_text (extract_requirements t))"
    unfolding extract_requirements_def take_map [symmetric] by (rule distinct_take)
  have first: "\<forall>r \<in> set (extract_requirements t).
      find (\<lambda>c. req_text c = req_text r) (matched_requirements t) = Some r"
  proof
    fix r
    assume "r \<in> set (extract_requirements t)"
    then have "r \<in> set (unique_reqs [] (matched_requirements t))"
      by (rule subsetD [OF extract_set])
    then show "find (\<lambda>c. req_text c = req_text r) (matched_requirements t) = Some r"
      by (rule unique_reqs_first)
  qed
  have pos: "\<forall>kw. sorted_wrt (<) (map position (pattern_requirements t kw))"
    by (rule allI) (rule pattern_positions)
  have short: "length (extract_requirements t) < 10 \<longrightarrow>
      req_text ` set (extract_requirements t) = req_text ` set (matched_requirements t)"
    by (rule impI) (rule extract_all_when_short)
  show ?thesis
    by (intro conjI) (rule len dist first extract_subseq matched_requirements_unfold pos short)+
qed

lemma requirement_of_eq:
  "requirement_of m = requirement_of m' \<longleftrightarrow> fst m = fst m' \<and> strip (snd m) = strip (snd m')"
  by (auto simp: requirement_of_def)

lemma kept_iff:
  assumes "m \<in> set (finditer kw 0 t)"
  shows "requirement_of m \<in> set (pattern_requirements t kw) \<longleftrightarrow> 10 < length (strip (snd m))"
proof
  assume "requirement_of m \<in> set (pattern_requirements t kw)"
  then obtain m' where "keep_match m'" "requirement_of m = requirement_of m'"
    by (auto simp: pattern_requirements_def)
  then show "10 < length (strip (snd m))"
    by (simp add: requirement_of_eq keep_match_def)
next
  assume "10 < length (strip (snd m))"
  with assms show "requirement_of m \<in> set (pattern_requirements t kw)"
    by (simp add: pattern_requirements_def keep_match_def)
qed

lemma pattern_requirements_long:
  "r \<in> set (pattern_requirements t kw) \<Longrightarrow> 10 < length (req_text r)"
  by (auto simp: pattern_requirements_def keep_match_def requirement_of_def)

lemma unique_reqs_subset: "set (unique_reqs seen rs) \<subseteq> set rs"
  by (induction rs arbitrary: seen) auto

lemma extract_long:
  assumes "r \<in> set (extract_requirements t)"
  shows "10 < length (req_text r)"
proof -
  from assms have "r \<in> set (unique_reqs [] (matched_requirements t))"
    by (rule subsetD [OF extract_set])
  then have "r \<in> set (matched_requirements t)"
    by (rule subsetD [OF unique_reqs_subset])
  then obtain kw where "r \<in> set (pattern_requirements t kw)"
    by (auto simp: matched_requirements_def)
  then show ?thesis by (rule pattern_requirements_long)
qed

text \<open>
  Claim C9, as the code has it. A captured span is kept exactly when its length after
  trimming is greater than 10, and discarded exactly when it is at most 10; so no
  requirement returned has a text of 10 characters or fewer.
\<close>

theorem short_spans_discarded:
  "(\<forall>r \<in> set (extract_requirements t). 10 < length (req_text r)) \<and>
   (\<forall>kw \<in> set requirement_patterns. \<forall>m \<in> set (finditer kw 0 t).
      (requirement_of m \<in> set (pattern_requirements t kw)) = (10 < length (strip (snd m))) \<and>
      (requirement_of m \<notin> set (pattern_requirements t kw)) = (length (strip (snd m)) \<le> 10))"
proof (intro conjI ballI)
  fix r
  assume "r \<in> set (extract_requirements t)"
  then show "10 < length (req_text r)" by (rule extract_long)
next
  fix kw m
  assume "m \<in> set (finditer kw 0 t)"
  then show "(requirement_of m \<in> set (pattern_requirements t kw)) = (10 < length (strip (snd m)))"
    by (rule kept_iff)
next
  fix kw m
  assume "m \<in> set (finditer kw 0 t)"
  then have "(requirement_of m \<in> set (pattern_requirements t kw)) = (10 < length (strip (snd m)))"
    by (rule kept_iff)
  then show "(requirement_of m \<notin> set (pattern_requirements t kw)) = (length (strip (snd m)) \<le> 10)"
    by (simp only: not_less)
qed


theorem extract_requirements_pattern_order_witness:
  "extract_requirements sample_text_duplicate =
     [\<lparr>req_text = ''wear a badge'', req_type = ''mandatory'', position = 4\<rparr>] \<and>
   distinct (map req_text (extract_requirements sample_text_duplicate)) \<and>
   subseq (extract_requirements sample_text_duplicate)
     (matched_requirements sample_text_duplicate)"
proof -
  have run: "extract_requirements sample_text_duplicate =
     [\<lparr>req_text = ''wear a badge'', req_type = ''mandatory'', position = 4\<rparr>]"
    by code_simp
  note spec = extract_requirements_pattern_order [of sample_text_duplicate]
  from spec have d: "distinct (map req_text (extract_requirements sample_text_duplicate))"
    by (rule conjunct1 [OF conjunct2])
  from spec have s: "subseq (extract_requirements sample_text_duplicate)
     (matched_requirements sample_text_duplicate)"
    by (rule conjunct1 [OF conjunct2 [OF conjunct2 [OF conjunct2]]])
  from run d s show ?thesis by (intro conjI)
qed

text \<open>
  Claim C5 as stated fails in its last part, the document order: in
  \<open>We shall log all access. You must lock all doors.\<close> the match of \<open>must\<close> at
  position 29 is returned before the match of \<open>shall\<close> at position 3.
\<close>

theorem extract_requirements_document_order_counterexample:
  "extract_requirements sample_text_order =
     [\<lparr>req_text = ''lock all doors'', req_type = ''mandatory'', position = 29\<rparr>,
      \<lparr>req_text = ''log all access'', req_type = ''mandatory'', position = 3\<rparr>] \<and>
   \<not> sorted (map position (extract_requirements sample_text_order))"
proof -
  have run: "extract_requirements sample_text_order =
     [\<lparr>req_text = ''lock all doors'', req_type = ''mandatory'', position = 29\<rparr>,
      \<lparr>req_text = ''log all access'', req_type = ''mandatory'', position = 3\<rparr>]"
    by code_simp
  show ?thesis unfolding run by simp
qed

theorem short_spans_discarded_witness:
  "finditer ''must'' 0 ''must abcdefghijk.'' = [(0, ''abcdefghijk'')] \<and>
   length (strip ''abcdefghijk'') = 11 \<and>
   requirement_of (0, ''abcdefghijk'') \<in> set (pattern_requirements ''must abcdefghijk.'' ''must'')"
proof -
  have f: "finditer ''must'' 0 ''must abcdefghijk.'' = [(0, ''abcdefghijk'')]"
    by code_simp
  have l: "length (strip ''abcdefghijk'') = 11" by code_simp
  have kw: "''must'' \<in> set requirement_patterns" by (simp add: requirement_patterns_def)
  have m: "(0, ''abcdefghijk'') \<in> set (finditer ''must'' 0 ''must abcdefghijk.'')"
    unfolding f by simp
  from short_spans_discarded [of "''must abcdefghijk.''"]
  have "\<forall>kw \<in> set requirement_patterns. \<forall>m \<in> set (finditer kw 0 ''must abcdefghijk.'').
      (requirement_of m \<in> set (pattern_requirements ''must abcdefghijk.'' kw))
        = (10 < length (strip (snd m)))"
    by blast
  from bspec [OF bspec [OF this kw] m] l
  have "requirement_of (0, ''abcdefghijk'') \<in> set (pattern_requirements ''must abcdefghijk.'' ''must'')"
    by simp
  with f l show ?thesis by (intro conjI)
qed

text \<open>
  Claim C9 as stated fails: in \<open>must abcdefghij.\<close> the captured span has exactly 10
  characters after trimming and is discarded.
\<close>

theorem span_of_ten_discarded_counterexample:
  "finditer ''must'' 0 ''must abcdefghij.'' = [(0, ''abcdefghij'')] \<and>
   length (strip ''abcdefghij'') = 10 \<and>
   extract_requirements ''must abcdefghij.'' = []"
  by code_simp

section \<open>Required keys and defaults\<close>









end
